theory Spec2Isabelle
  imports Complex_Main
begin

text \<open>
  A model of the risk analysis of \<open>document_analyzer_simple.py\<close> (text only, with named
  sub-scores) and of \<open>document_analyzer.py\<close> (text and first page image, with one
  combined score), and the properties of their specification checked against it.
  The PDF parser, the page renderer, the image library and the regular-expression
  library are collaborators: the model takes what they return, or the exception they
  raise, as its input.
\<close>

section \<open>Python strings\<close>

text \<open>
  A Python \<open>str\<close> is modelled as a \<open>string\<close> whose characters are the code points
  U+0000 .. U+00FF, one \<open>char\<close> per code point, so that \<open>length\<close> is Python's \<open>len\<close>.
  Code points above U+00FF are outside the model.
\<close>

definition upper_chars :: string where
  "upper_chars = ''ABCDEFGHIJKLMNOPQRSTUVWXYZ'' @
     [CHR 0xC0, CHR 0xC1, CHR 0xC2, CHR 0xC3, CHR 0xC4, CHR 0xC5, CHR 0xC6, CHR 0xC7,
      CHR 0xC8, CHR 0xC9, CHR 0xCA, CHR 0xCB, CHR 0xCC, CHR 0xCD, CHR 0xCE, CHR 0xCF,
      CHR 0xD0, CHR 0xD1, CHR 0xD2, CHR 0xD3, CHR 0xD4, CHR 0xD5, CHR 0xD6,
      CHR 0xD8, CHR 0xD9, CHR 0xDA, CHR 0xDB, CHR 0xDC, CHR 0xDD, CHR 0xDE]"

definition lower_chars :: string where
  "lower_chars = ''abcdefghijklmnopqrstuvwxyz'' @
     [CHR 0xE0, CHR 0xE1, CHR 0xE2, CHR 0xE3, CHR 0xE4, CHR 0xE5, CHR 0xE6, CHR 0xE7,
      CHR 0xE8, CHR 0xE9, CHR 0xEA, CHR 0xEB, CHR 0xEC, CHR 0xED, CHR 0xEE, CHR 0xEF,
      CHR 0xF0, CHR 0xF1, CHR 0xF2, CHR 0xF3, CHR 0xF4, CHR 0xF5, CHR 0xF6,
      CHR 0xF8, CHR 0xF9, CHR 0xFA, CHR 0xFB, CHR 0xFC, CHR 0xFD, CHR 0xFE]"

text \<open>\<open>str.lower\<close> on one character.\<close>

definition lower_char :: "char \<Rightarrow> char" where
  "lower_char c = (case map_of (zip upper_chars lower_chars) c of None \<Rightarrow> c | Some l \<Rightarrow> l)"

definition py_lower :: "string \<Rightarrow> string" where
  "py_lower s = map lower_char s"

text \<open>\<open>str.isspace\<close> on one character; the regular-expression class \<open>\s\<close> is the same set.\<close>

definition py_isspace :: "char \<Rightarrow> bool" where
  "py_isspace c = (c \<in> set [CHR 0x09, CHR 0x0A, CHR 0x0B, CHR 0x0C, CHR 0x0D,
                                CHR 0x1C, CHR 0x1D, CHR 0x1E, CHR 0x1F, CHR 0x20,
                                CHR 0x85, CHR 0xA0])"

text \<open>\<open>str.strip()\<close>.\<close>

definition py_strip :: "string \<Rightarrow> string" where
  "py_strip s = rev (dropWhile py_isspace (rev (dropWhile py_isspace s)))"

text \<open>\<open>s.startswith(sub)\<close>.\<close>

definition starts_with :: "string \<Rightarrow> string \<Rightarrow> bool" where
  "starts_with sub s = (take (length sub) s = sub)"

text \<open>\<open>sub in s\<close>.\<close>

fun py_in :: "string \<Rightarrow> string \<Rightarrow> bool" where
  "py_in sub [] = (sub = [])"
| "py_in sub (c # cs) = (starts_with sub (c # cs) \<or> py_in sub cs)"

text \<open>
  \<open>s.count(sub)\<close>: the number of non-overlapping occurrences, scanning from the left.
  After an occurrence the scan resumes behind it; \<open>skip\<close> counts the characters of the
  occurrence still to be passed over.
\<close>

fun count_from :: "string \<Rightarrow> nat \<Rightarrow> string \<Rightarrow> nat" where
  "count_from sub skip [] = 0"
| "count_from sub skip (c # cs) =
     (if 0 < skip then count_from sub (skip - 1) cs
      else if starts_with sub (c # cs) then 1 + count_from sub (length sub - 1) cs
      else count_from sub 0 cs)"

definition py_count :: "string \<Rightarrow> string \<Rightarrow> nat" where
  "py_count s sub = (if sub = [] then length s + 1 else count_from sub 0 s)"

text \<open>\<open>s.split(sep)\<close> for a non-empty separator: always at least one piece.\<close>

fun split_from :: "string \<Rightarrow> nat \<Rightarrow> string \<Rightarrow> string \<Rightarrow> string list" where
  "split_from sep skip cur [] = [cur]"
| "split_from sep skip cur (c # cs) =
     (if 0 < skip then split_from sep (skip - 1) cur cs
      else if starts_with sep (c # cs) then cur # split_from sep (length sep - 1) [] cs
      else split_from sep 0 (cur @ [c]) cs)"

definition py_split :: "string \<Rightarrow> string \<Rightarrow> string list" where
  "py_split s sep = split_from sep 0 [] s"

text \<open>\<open>s.split()\<close>: the maximal runs of non-whitespace characters.\<close>

fun words_from :: "string \<Rightarrow> string \<Rightarrow> string list" where
  "words_from cur [] = (if cur = [] then [] else [cur])"
| "words_from cur (c # cs) =
     (if py_isspace c then (if cur = [] then words_from [] cs else cur # words_from [] cs)
      else words_from (cur @ [c]) cs)"

definition py_split_ws :: "string \<Rightarrow> string list" where
  "py_split_ws s = words_from [] s"

text \<open>\<open>' '.join(parts)\<close>.\<close>

fun join_space :: "string list \<Rightarrow> string" where
  "join_space [] = []"
| "join_space [p] = p"
| "join_space (p # q # ps) = p @ '' '' @ join_space (q # ps)"

text \<open>\<open>s[a:b]\<close> for non-negative bounds.\<close>

definition slice :: "'a list \<Rightarrow> nat \<Rightarrow> nat \<Rightarrow> 'a list" where
  "slice xs a b = take (b - a) (drop a xs)"

text \<open>\<open>str(n)\<close> for a non-negative integer.\<close>

definition digit_char :: "nat \<Rightarrow> char" where
  "digit_char d = ''0123456789'' ! d"

function digits_of :: "nat \<Rightarrow> string" where
  "digits_of n =
     (if n < 10 then [digit_char n] else digits_of (n div 10) @ [digit_char (n mod 10)])"
  by pat_completeness auto
termination
  by (relation "measure id") auto

declare digits_of.simps [simp del]

definition py_str :: "nat \<Rightarrow> string" where
  "py_str n = digits_of n"

text \<open>\<open>os.path.basename\<close> (POSIX): what follows the last slash.\<close>

definition basename :: "string \<Rightarrow> string" where
  "basename p = rev (takeWhile (\<lambda>c. c \<noteq> CHR ''/'') (rev p))"

text \<open>\<open>d.get(key, default)\<close> on a field that may be absent.\<close>

definition get_or :: "'a \<Rightarrow> 'a option \<Rightarrow> 'a" where
  "get_or d v = (case v of None \<Rightarrow> d | Some x \<Rightarrow> x)"

text \<open>
  The outcome of a call into a collaborator (the PDF parser, the page renderer, the image
  library): the message of the exception it raised, or the value it returned.
\<close>

datatype 'a outcome = Raises string | Returns 'a

section \<open>Regular expressions of the high-risk phrases\<close>

text \<open>
  The six high-risk patterns consist of literal characters and \<open>\s+\<close> only, and are
  searched with \<open>re.IGNORECASE\<close>. \<open>re_compile\<close> reads such a pattern; \<open>match_here\<close> is
  the backtracking matcher at one position (\<open>\s+\<close> is greedy and gives characters back
  one at a time), returning the length of the match; \<open>finditer_from\<close> is the scan of
  \<open>re.finditer\<close>: leftmost matches, the search resuming where the last match ended.
\<close>

datatype re_item = Chr char | Spaces1

definition backslash :: char where
  "backslash = CHR 0x5C"

fun re_compile :: "string \<Rightarrow> re_item list" where
  "re_compile (a # b # c # cs) =
     (if a = backslash \<and> b = CHR ''s'' \<and> c = CHR ''+'' then Spaces1 # re_compile cs
      else Chr a # re_compile (b # c # cs))"
| "re_compile (a # cs) = Chr a # re_compile cs"
| "re_compile [] = []"

fun first_some :: "'a option list \<Rightarrow> 'a option" where
  "first_some [] = None"
| "first_some (None # xs) = first_some xs"
| "first_some (Some x # xs) = Some x"

fun match_here :: "re_item list \<Rightarrow> string \<Rightarrow> nat option" where
  "match_here [] s = Some 0"
| "match_here (Chr c # ps) s =
     (case s of [] \<Rightarrow> None
      | x # xs \<Rightarrow> if lower_char x = lower_char c then map_option Suc (match_here ps xs)
                  else None)"
| "match_here (Spaces1 # ps) s =
     first_some (map (\<lambda>k. map_option (\<lambda>n. k + n) (match_here ps (drop k s)))
                     (rev [1 ..< Suc (length (takeWhile py_isspace s))]))"

fun finditer_from :: "re_item list \<Rightarrow> nat \<Rightarrow> nat \<Rightarrow> string \<Rightarrow> (nat \<times> nat) list" where
  "finditer_from ps pos skip [] =
     (if skip = 0 then (case match_here ps [] of None \<Rightarrow> [] | Some n \<Rightarrow> [(pos, pos + n)])
      else [])"
| "finditer_from ps pos skip (c # cs) =
     (if 0 < skip then finditer_from ps (Suc pos) (skip - 1) cs
      else case match_here ps (c # cs) of
             None \<Rightarrow> finditer_from ps (Suc pos) 0 cs
           | Some n \<Rightarrow> (pos, pos + n) # finditer_from ps (Suc pos) (n - 1) cs)"

text \<open>\<open>re.finditer(pattern, text, re.IGNORECASE)\<close> as the list of (start, end) spans.\<close>

definition re_finditer :: "string \<Rightarrow> string \<Rightarrow> (nat \<times> nat) list" where
  "re_finditer pattern text = finditer_from (re_compile pattern) 0 0 text"

section \<open>SimpleDocumentAnalyzer (document\_analyzer\_simple.py)\<close>

subsection \<open>Configuration\<close>

definition risk_keywords :: "string list" where
  "risk_keywords =
     [''liability'', ''penalty'', ''breach'', ''termination'', ''indemnify'',
      ''damages'', ''lawsuit'', ''arbitration'', ''confidential'', ''proprietary'',
      ''non-compete'', ''exclusive'', ''irrevocable'', ''perpetual'', ''waive'',
      ''default'', ''violation'', ''prosecution'', ''negligence'', ''warranty'']"

definition high_risk_patterns :: "string list" where
  "high_risk_patterns =
     [''unlimited'' @ [backslash] @ ''s+liability'',
      ''personal'' @ [backslash] @ ''s+guarantee'',
      ''joint'' @ [backslash] @ ''s+and'' @ [backslash] @ ''s+several'',
      ''automatic'' @ [backslash] @ ''s+renewal'',
      ''no'' @ [backslash] @ ''s+right'' @ [backslash] @ ''s+to'' @ [backslash] @ ''s+terminate'',
      ''waive'' @ [backslash] @ ''s+all'' @ [backslash] @ ''s+rights'']"

subsection \<open>Data\<close>

datatype level = LOW | MEDIUM | HIGH

record risk_section =
  sec_pattern :: string
  sec_context :: string
  sec_level :: level

text \<open>
  The \<open>text_analysis\<close> dictionary. A field is \<open>None\<close> when the key is absent: the
  dictionary returned after a failure has the keys \<open>error\<close> and \<open>risk_keywords_found\<close>
  only.
\<close>

record text_analysis =
  ta_error :: "string option"
  total_characters :: "nat option"
  total_words :: "nat option"
  page_count :: "nat option"
  risk_keywords_found :: "nat option"
  keyword_breakdown :: "(string \<times> nat) list option"
  monetary_amounts :: "string list option"
  dates_found :: "string list option"
  emails_found :: "string list option"
  signature_indicators :: "nat option"
  high_risk_sections :: "risk_section list option"

record risk_assessment =
  keyword_risk :: int
  financial_risk :: int
  compliance_risk :: int
  signature_risk :: int
  overall_risk :: int
  risk_level :: level

subsection \<open>find\_high\_risk\_sections\<close>

text \<open>The body of the inner loop over the matches of one pattern.\<close>

definition match_section :: "string \<Rightarrow> string \<Rightarrow> nat \<times> nat \<Rightarrow> risk_section" where
  "match_section text pattern m =
     (let start = nat (max 0 (int (fst m) - 100));
          end = min (length text) (snd m + 100);
          context = py_strip (slice text start end)
      in \<lparr>sec_pattern = pattern, sec_context = context, sec_level = HIGH\<rparr>)"

definition pattern_loop :: "string \<Rightarrow> risk_section list \<Rightarrow> string \<Rightarrow> risk_section list" where
  "pattern_loop text sections pattern =
     foldl (\<lambda>secs m. secs @ [match_section text pattern m]) sections
           (re_finditer pattern text)"

text \<open>The number of risk keywords that occur in a paragraph.\<close>

definition para_risk_count :: "string \<Rightarrow> nat" where
  "para_risk_count para =
     (let para_lower = py_lower para
      in length (filter (\<lambda>keyword. py_in keyword para_lower) risk_keywords))"

definition para_section :: "string \<Rightarrow> nat \<Rightarrow> risk_section" where
  "para_section para risk_count =
     \<lparr>sec_pattern = py_str risk_count @ '' risk keywords'',
      sec_context = (if 300 < length para then take 300 para @ ''...'' else para),
      sec_level = (if risk_count < 5 then MEDIUM else HIGH)\<rparr>"

definition para_loop :: "risk_section list \<Rightarrow> string \<Rightarrow> risk_section list" where
  "para_loop sections para =
     (let risk_count = para_risk_count para
      in if 3 \<le> risk_count then sections @ [para_section para risk_count] else sections)"

definition find_high_risk_sections :: "string \<Rightarrow> risk_section list" where
  "find_high_risk_sections text =
     (let sections = foldl (pattern_loop text) [] high_risk_patterns;
          paragraphs = py_split text [CHR 0x0A, CHR 0x0A];
          sections = foldl para_loop sections paragraphs
      in take 10 sections)"

subsection \<open>assess\_risks\<close>

text \<open>
  The loop that looks for a high amount: it sets the financial risk to 30 at the first
  amount that qualifies and leaves the loop.
\<close>

fun high_amount_loop :: "int \<Rightarrow> string list \<Rightarrow> int" where
  "high_amount_loop financial [] = financial"
| "high_amount_loop financial (amount # amounts) =
     (if py_in ''million'' (py_lower amount) \<or> py_in ''M'' amount then 30
      else high_amount_loop financial amounts)"

definition assess_risks :: "text_analysis \<Rightarrow> risk_assessment" where
  "assess_risks ta =
     (let keyword_count = get_or 0 (risk_keywords_found ta);
          keyword = min 40 (int keyword_count * 2);
          amounts = get_or [] (monetary_amounts ta);
          financial = (if amounts \<noteq> []
                       then high_amount_loop (min 30 (int (length amounts) * 5)) amounts
                       else 0);
          sections = get_or [] (high_risk_sections ta);
          compliance = min 20 (int (length sections) * 4);
          signature = (if get_or 0 (signature_indicators ta) = 0 then 10 else 0);
          overall = keyword + financial + compliance + signature;
          lvl = (if 70 \<le> overall then HIGH else if 40 \<le> overall then MEDIUM else LOW)
      in \<lparr>keyword_risk = keyword, financial_risk = financial,
          compliance_risk = compliance, signature_risk = signature,
          overall_risk = overall, risk_level = lvl\<rparr>)"

subsection \<open>Collaborators\<close>

text \<open>
  The money, date and e-mail patterns are matched by Python's \<open>re\<close> library, which is
  taken as given: \<open>findall_money i text\<close> is the result of \<open>re.findall\<close> for the
  \<open>i\<close>-th entry of \<open>money_patterns\<close>, and so on. \<open>findall_money_combined\<close> is the single
  money pattern of \<open>MultimodalDocumentAnalyzer\<close>.
\<close>

record regex_lib =
  findall_money :: "nat \<Rightarrow> string \<Rightarrow> string list"
  findall_dates :: "string \<Rightarrow> string list"
  findall_emails :: "string \<Rightarrow> string list"
  findall_money_combined :: "string \<Rightarrow> string list"

text \<open>
  What \<open>PdfReader\<close> gives for a file that it can read. A metadata value is \<open>None\<close> when
  PyPDF2 has none, else its \<open>str()\<close>. Each page carries the outcome of
  \<open>page.extract_text()\<close>.
\<close>

record pdf_metadata =
  pdf_title :: "string option"
  pdf_author :: "string option"
  pdf_subject :: "string option"
  pdf_creator :: "string option"
  pdf_producer :: "string option"
  pdf_creation_date :: "string option"
  pdf_modification_date :: "string option"

record pdf_reader =
  pdf_pages :: "string outcome list"
  pdf_metadata :: "pdf_metadata option"
  pdf_is_encrypted :: bool

text \<open>
  One call of \<open>analyze_document\<close>: the path, the clock's \<open>datetime.now().isoformat()\<close>,
  and the outcome of opening and parsing the file.
\<close>

record document =
  pdf_path :: string
  doc_now :: string
  doc_parse :: "pdf_reader outcome"

subsection \<open>extract\_metadata\<close>

record metadata_dict =
  md_error :: "string option"
  md_pages :: "nat option"
  md_title :: "string option"
  md_author :: "string option"
  md_subject :: "string option"
  md_creator :: "string option"
  md_producer :: "string option"
  md_creation_date :: "string option"
  md_modification_date :: "string option"
  md_encrypted :: "bool option"

text \<open>\<open>str(metadata.x) if metadata and metadata.x else 'Unknown'\<close>.\<close>

definition or_unknown :: "pdf_metadata option \<Rightarrow> (pdf_metadata \<Rightarrow> string option) \<Rightarrow> string" where
  "or_unknown metadata field =
     (case metadata of None \<Rightarrow> ''Unknown''
      | Some m \<Rightarrow> (case field m of None \<Rightarrow> ''Unknown''
                   | Some v \<Rightarrow> if v = [] then ''Unknown'' else v))"

definition extract_metadata :: "pdf_reader outcome \<Rightarrow> metadata_dict" where
  "extract_metadata parse =
     (case parse of
        Raises e \<Rightarrow>
          \<lparr>md_error = Some e, md_pages = None, md_title = None, md_author = None,
           md_subject = None, md_creator = None, md_producer = None,
           md_creation_date = None, md_modification_date = None, md_encrypted = None\<rparr>
      | Returns reader \<Rightarrow>
          (let metadata = pdf_metadata reader
           in \<lparr>md_error = None,
               md_pages = Some (length (pdf_pages reader)),
               md_title = Some (or_unknown metadata pdf_title),
               md_author = Some (or_unknown metadata pdf_author),
               md_subject = Some (or_unknown metadata pdf_subject),
               md_creator = Some (or_unknown metadata pdf_creator),
               md_producer = Some (or_unknown metadata pdf_producer),
               md_creation_date = Some (or_unknown metadata pdf_creation_date),
               md_modification_date = Some (or_unknown metadata pdf_modification_date),
               md_encrypted = Some (pdf_is_encrypted reader)\<rparr>))"

subsection \<open>extract\_text\_features\<close>

text \<open>
  The loop over the pages: a page without text adds nothing, a page whose extraction
  raises ends the loop with that exception.
\<close>

fun read_pages :: "string \<Rightarrow> string outcome list \<Rightarrow> string outcome" where
  "read_pages full_text [] = Returns full_text"
| "read_pages full_text (Raises e # pages) = Raises e"
| "read_pages full_text (Returns page_text # pages) =
     (if page_text \<noteq> [] then read_pages (full_text @ page_text @ [CHR 0x0A]) pages
      else read_pages full_text pages)"

text \<open>The keyword loop: the state is the breakdown dictionary and the running total.\<close>

definition keyword_loop ::
  "string \<Rightarrow> (string \<times> nat) list \<times> nat \<Rightarrow> string \<Rightarrow> (string \<times> nat) list \<times> nat" where
  "keyword_loop text_lower st keyword =
     (let count = py_count text_lower keyword
      in if 0 < count then (fst st @ [(keyword, count)], snd st + count) else st)"

definition signature_indicator_list :: "string list" where
  "signature_indicator_list =
     [''signature'', ''signed by'', ''authorized signature'', ''/s/'', ''by:'', ''name:'']"

definition error_dict :: "string \<Rightarrow> text_analysis" where
  "error_dict e =
     \<lparr>ta_error = Some e, total_characters = None, total_words = None, page_count = None,
      risk_keywords_found = Some 0, keyword_breakdown = None, monetary_amounts = None,
      dates_found = None, emails_found = None, signature_indicators = None,
      high_risk_sections = None\<rparr>"

definition text_features_of :: "regex_lib \<Rightarrow> nat \<Rightarrow> string \<Rightarrow> text_analysis" where
  "text_features_of re pages full_text =
     (let text_lower = py_lower full_text;
          counted = foldl (keyword_loop text_lower) ([], 0) risk_keywords;
          amounts = foldl (\<lambda>acc i. acc @ findall_money re i full_text) [] [0 ..< 4];
          signature_count =
            length (filter (\<lambda>indicator. py_in indicator text_lower) signature_indicator_list)
      in \<lparr>ta_error = None,
          total_characters = Some (length full_text),
          total_words = Some (length (py_split_ws full_text)),
          page_count = Some pages,
          risk_keywords_found = Some (snd counted),
          keyword_breakdown = Some (fst counted),
          monetary_amounts = Some (take 10 amounts),
          dates_found = Some (take 10 (findall_dates re full_text)),
          emails_found = Some (take 5 (findall_emails re full_text)),
          signature_indicators = Some signature_count,
          high_risk_sections = Some (find_high_risk_sections full_text)\<rparr>)"

definition extract_text_features :: "regex_lib \<Rightarrow> pdf_reader outcome \<Rightarrow> text_analysis" where
  "extract_text_features re parse =
     (case parse of
        Raises e \<Rightarrow> error_dict e
      | Returns reader \<Rightarrow>
          (case read_pages [] (pdf_pages reader) of
             Raises e \<Rightarrow> error_dict e
           | Returns full_text \<Rightarrow> text_features_of re (length (pdf_pages reader)) full_text))"

subsection \<open>generate\_recommendations\<close>

text \<open>
  Every line of the source starts with an emoji and a space; they lie beyond U+00FF
  and are left out, the wording is the source's.
\<close>

text \<open>\<open>if cond: recommendations.append(line)\<close>.\<close>

definition append_if :: "bool \<Rightarrow> string \<Rightarrow> string list \<Rightarrow> string list" where
  "append_if cond line recommendations = (if cond then recommendations @ [line] else recommendations)"

text \<open>\<open>key in d\<close> for a dictionary kept as a list of items.\<close>

definition has_key :: "string \<Rightarrow> (string \<times> nat) list \<Rightarrow> bool" where
  "has_key k d = (k \<in> set (map fst d))"

definition generate_recommendations :: "risk_assessment \<Rightarrow> text_analysis \<Rightarrow> string list" where
  "generate_recommendations ra ta =
     (let recommendations =
            (if risk_level ra = HIGH then
               [''HIGH RISK: Strongly recommend legal review before signing'',
                ''Multiple risk factors detected - proceed with extreme caution'']
             else if risk_level ra = MEDIUM then
               [''MEDIUM RISK: Review highlighted sections carefully'',
                ''Consider consulting legal counsel for specific clauses'']
             else
               [''LOW RISK: Document appears standard, but always review before signing'']);
          recommendations = append_if (0 < signature_risk ra)
            ''No signature indicators found - ensure proper execution'' recommendations;
          recommendations = append_if (20 \<le> financial_risk ra)
            ''High financial exposure detected - verify all monetary commitments'' recommendations;
          recommendations = append_if (15 \<le> compliance_risk ra)
            ''Multiple compliance concerns - ensure regulatory alignment'' recommendations;
          recommendations = append_if (5 < length (get_or [] (high_risk_sections ta)))
            ''Numerous high-risk sections found - detailed review essential'' recommendations;
          breakdown = get_or [] (keyword_breakdown ta);
          recommendations = append_if
            (has_key ''indemnify'' breakdown \<or> has_key ''indemnification'' breakdown)
            ''Indemnification clauses present - review liability exposure'' recommendations;
          recommendations = append_if (has_key ''termination'' breakdown)
            ''Review termination clauses and exit strategies'' recommendations;
          recommendations = append_if
            (has_key ''confidential'' breakdown \<or> has_key ''proprietary'' breakdown)
            ''Confidentiality obligations present - ensure compliance capability'' recommendations
      in recommendations)"

subsection \<open>analyze\_document\<close>

record analysis_result =
  filename :: string
  timestamp :: string
  metadata :: metadata_dict
  text_analysis :: text_analysis
  risk_assessment :: risk_assessment
  recommendations :: "string list"

text \<open>
  Both extraction steps catch every exception themselves, and the later steps read the
  dictionaries with defaults, so the function has no raising path: it always returns.
\<close>

definition analyze_document :: "regex_lib \<Rightarrow> document \<Rightarrow> analysis_result outcome" where
  "analyze_document re doc =
     (let md = extract_metadata (doc_parse doc);
          ta = extract_text_features re (doc_parse doc);
          ra = assess_risks ta;
          recs = generate_recommendations ra ta
      in Returns \<lparr>filename = basename (pdf_path doc), timestamp = doc_now doc,
                  metadata = md, text_analysis = ta, risk_assessment = ra,
                  recommendations = recs\<rparr>)"

section \<open>MultimodalDocumentAnalyzer (document\_analyzer.py)\<close>

subsection \<open>Configuration and data\<close>

definition m_risk_keywords :: "string list" where
  "m_risk_keywords =
     [''liability'', ''penalty'', ''breach'', ''termination'', ''indemnify'',
      ''damages'', ''lawsuit'', ''arbitration'', ''confidential'', ''proprietary'',
      ''non-compete'', ''exclusive'', ''irrevocable'', ''perpetual'']"

definition signature_min_area :: real where
  "signature_min_area = 5000"

definition signature_aspect_ratio_range :: "real \<times> real" where
  "signature_aspect_ratio_range = (2, 6)"

text \<open>
  The text dictionary of this analyzer. The three fields that the scorer and the
  recommendations read with \<open>.get\<close> are optional.
\<close>

record m_text_features =
  m_page_count :: nat
  m_total_words :: nat
  m_risk_keywords_found :: nat
  m_monetary_amounts :: "string list option"
  text_risk_score :: "int option"
  m_high_risk_sections :: "string list option"

text \<open>
  The visual dictionary: all keys are optional, since the two dictionaries returned
  after a failure hold an \<open>error\<close> and at most a score.
\<close>

record visual_features =
  vf_error :: "string option"
  signatures_detected :: "nat option"
  stamps_detected :: "nat option"
  layout_consistency_score :: "real option"
  visual_risk_score :: "int option"
  anomalies :: "string list option"

text \<open>
  A floating-point number is a real, or \<open>None\<close> for a value that is not a finite
  number (NaN, or the result of a division by zero). Rounding is not modelled.
\<close>

type_synonym npfloat = "real option"

text \<open>
  What the image library reports for a rendered page: the contours of the edge map with
  their \<open>contourArea\<close> and \<open>boundingRect\<close>, the result of \<open>HoughCircles\<close> (\<open>None\<close> or the
  circles), the binarised page (rows of pixels), the largest and the mean bin of the
  colour histogram, and the number of ORB keypoints.
\<close>

record contour =
  contour_area :: real
  bounding_rect :: "int \<times> int \<times> int \<times> int"

record page_image =
  img_contours :: "contour list"
  img_circles :: "(real \<times> real \<times> real) list option"
  img_binary :: "nat list list"
  img_hist_max :: real
  img_hist_mean :: real
  img_keypoints :: nat

text \<open>
  One call of \<open>analyze_document\<close>. \<open>m_render\<close> is the outcome of \<open>convert_from_path\<close>;
  an image is \<open>Raises e\<close> when the image library raises \<open>e\<close> while it is processed.
\<close>

record m_document =
  m_pdf_path :: string
  m_now :: string
  m_parse :: "pdf_reader outcome"
  m_render :: "page_image outcome list outcome"

record m_results =
  m_filename :: string
  m_timestamp :: string
  visual_analysis :: visual_features
  m_text_analysis :: m_text_features
  combined_risk_score :: real
  m_recommendations :: "string list"

subsection \<open>extract\_text\_features and find\_high\_risk\_sections\<close>

text \<open>The page loop of this analyzer: no test for an empty page, no handler.\<close>

fun m_read_pages :: "string \<Rightarrow> string outcome list \<Rightarrow> string outcome" where
  "m_read_pages full_text [] = Returns full_text"
| "m_read_pages full_text (Raises e # pages) = Raises e"
| "m_read_pages full_text (Returns page_text # pages) =
     m_read_pages (full_text @ page_text @ [CHR 0x0A]) pages"

definition m_line_step :: "string list \<Rightarrow> string list \<Rightarrow> nat \<Rightarrow> string list" where
  "m_line_step lines sections i =
     (let line = lines ! i;
          risk_count = length (filter (\<lambda>keyword. py_in keyword (py_lower line)) m_risk_keywords)
      in if 2 \<le> risk_count
         then (let context = join_space (slice lines (nat (max 0 (int i - 1)))
                                               (min (length lines) (i + 2)))
               in sections @ [take 200 context @ ''...''])
         else sections)"

definition m_find_high_risk_sections :: "string \<Rightarrow> string list" where
  "m_find_high_risk_sections text =
     (let lines = py_split text [CHR 0x0A];
          sections = foldl (m_line_step lines) [] [0 ..< length lines]
      in take 3 sections)"

definition m_text_features_of :: "regex_lib \<Rightarrow> nat \<Rightarrow> string \<Rightarrow> m_text_features" where
  "m_text_features_of re pages full_text =
     (let risk_keyword_count =
            sum_list (map (\<lambda>keyword. py_count (py_lower full_text) keyword) m_risk_keywords);
          amounts = findall_money_combined re full_text;
          score = min 100 (int risk_keyword_count * 5)
      in \<lparr>m_page_count = pages,
          m_total_words = length (py_split_ws full_text),
          m_risk_keywords_found = risk_keyword_count,
          m_monetary_amounts = Some (take 5 amounts),
          text_risk_score = Some score,
          m_high_risk_sections = Some (m_find_high_risk_sections full_text)\<rparr>)"

definition m_extract_text_features :: "regex_lib \<Rightarrow> pdf_reader outcome \<Rightarrow> m_text_features outcome" where
  "m_extract_text_features re parse =
     (case parse of
        Raises e \<Rightarrow> Raises e
      | Returns reader \<Rightarrow>
          (case m_read_pages [] (pdf_pages reader) of
             Raises e \<Rightarrow> Raises e
           | Returns full_text \<Rightarrow>
               Returns (m_text_features_of re (length (pdf_pages reader)) full_text)))"

subsection \<open>Detectors\<close>

definition detect_signature_regions :: "page_image \<Rightarrow> (int \<times> int \<times> int \<times> int) list" where
  "detect_signature_regions img =
     map bounding_rect
       (filter (\<lambda>c. signature_min_area < contour_area c \<and>
                     (case bounding_rect c of (x, y, w, h) \<Rightarrow>
                        (let aspect_ratio = (if 0 < h then real_of_int w / real_of_int h else 0)
                         in fst signature_aspect_ratio_range \<le> aspect_ratio \<and>
                            aspect_ratio \<le> snd signature_aspect_ratio_range)))
               (img_contours img))"

text \<open>\<open>np.around\<close> rounds halves to the even neighbour; \<open>np.uint16\<close> wraps.\<close>

definition np_around :: "real \<Rightarrow> int" where
  "np_around x =
     (let f = \<lfloor>x\<rfloor>; d = x - of_int f
      in if d < 1 / 2 then f else if 1 / 2 < d then f + 1 else if even f then f else f + 1)"

definition np_uint16 :: "int \<Rightarrow> nat" where
  "np_uint16 i = nat (i mod 65536)"

definition detect_stamp_regions :: "page_image \<Rightarrow> (nat \<times> nat \<times> nat) list" where
  "detect_stamp_regions img =
     (case img_circles img of
        None \<Rightarrow> []
      | Some circles \<Rightarrow>
          map (\<lambda>(x, y, r). (np_uint16 (np_around x), np_uint16 (np_around y),
                             np_uint16 (np_around r))) circles)"

definition detect_visual_anomalies :: "page_image \<Rightarrow> string list" where
  "detect_visual_anomalies img =
     (let found = (if img_hist_mean img * 10 < img_hist_max img
                   then [''Unusual color concentration detected''] else []);
          found = (if 500 < img_keypoints img
                   then found @ [''High number of similar features (possible copy-paste)'']
                   else found)
      in found)"

subsection \<open>analyze\_layout\_consistency\<close>

text \<open>\<open>np.mean\<close> of an array: NaN when the array is empty.\<close>

definition np_mean :: "real list \<Rightarrow> npfloat" where
  "np_mean xs = (if xs = [] then None else Some (sum_list xs / real (length xs)))"

text \<open>\<open>np.mean\<close> and \<open>np.std\<close> of a list of floats: NaN as soon as one entry is NaN.\<close>

definition np_mean_floats :: "npfloat list \<Rightarrow> npfloat" where
  "np_mean_floats ds = (case those ds of None \<Rightarrow> None | Some xs \<Rightarrow> np_mean xs)"

definition np_std_floats :: "npfloat list \<Rightarrow> npfloat" where
  "np_std_floats ds =
     (case those ds of
        None \<Rightarrow> None
      | Some xs \<Rightarrow>
          (case np_mean xs of
             None \<Rightarrow> None
           | Some m \<Rightarrow> map_option sqrt (np_mean (map (\<lambda>x. (x - m)\<^sup>2) xs))))"

text \<open>Float division and subtraction; dividing by zero gives no finite number.\<close>

definition float_div :: "npfloat \<Rightarrow> npfloat \<Rightarrow> npfloat" where
  "float_div a b =
     (case (a, b) of
        (Some x, Some y) \<Rightarrow> if y = 0 then None else Some (x / y)
      | _ \<Rightarrow> None)"

definition float_sub :: "npfloat \<Rightarrow> npfloat \<Rightarrow> npfloat" where
  "float_sub a b = (case (a, b) of (Some x, Some y) \<Rightarrow> Some (x - y) | _ \<Rightarrow> None)"

text \<open>\<open>a > b\<close> and \<open>a < b\<close> on floats: false when either side is NaN.\<close>

definition float_gt :: "npfloat \<Rightarrow> npfloat \<Rightarrow> bool" where
  "float_gt a b = (case (a, b) of (Some x, Some y) \<Rightarrow> y < x | _ \<Rightarrow> False)"

definition float_lt :: "npfloat \<Rightarrow> npfloat \<Rightarrow> bool" where
  "float_lt a b = (case (a, b) of (Some x, Some y) \<Rightarrow> x < y | _ \<Rightarrow> False)"

text \<open>
  Python's \<open>max(a, b)\<close> and \<open>min(a, b)\<close>: the first argument, unless the second is
  greater (smaller).
\<close>

definition py_max :: "npfloat \<Rightarrow> npfloat \<Rightarrow> npfloat" where
  "py_max a b = (if float_gt b a then b else a)"

definition py_min :: "npfloat \<Rightarrow> npfloat \<Rightarrow> npfloat" where
  "py_min a b = (if float_lt b a then b else a)"

text \<open>\<open>binary[r0:r1, c0:c1]\<close>, flattened.\<close>

definition quadrant :: "nat list list \<Rightarrow> nat \<Rightarrow> nat \<Rightarrow> nat \<Rightarrow> nat \<Rightarrow> real list" where
  "quadrant binary r0 r1 c0 c1 =
     concat (map (\<lambda>row. map real (slice row c0 c1)) (slice binary r0 r1))"

definition quadrant_densities :: "nat list list \<Rightarrow> npfloat list" where
  "quadrant_densities binary =
     (let h = length binary;
          w = (case binary of [] \<Rightarrow> 0 | row # _ \<Rightarrow> length row);
          quadrants = [quadrant binary 0 (h div 2) 0 (w div 2),
                       quadrant binary 0 (h div 2) (w div 2) w,
                       quadrant binary (h div 2) h 0 (w div 2),
                       quadrant binary (h div 2) h (w div 2) w]
      in map (\<lambda>q. float_div (np_mean q) (Some 255)) quadrants)"

text \<open>
  The consistency before it is clamped:
  \<open>1 - (np.std(densities) / np.mean(densities) if np.mean(densities) > 0 else 0)\<close>.
\<close>

definition unclamped_consistency :: "npfloat list \<Rightarrow> npfloat" where
  "unclamped_consistency densities =
     float_sub (Some 1)
       (if float_gt (np_mean_floats densities) (Some 0)
        then float_div (np_std_floats densities) (np_mean_floats densities)
        else Some 0)"

definition analyze_layout_consistency :: "page_image \<Rightarrow> npfloat" where
  "analyze_layout_consistency img =
     (let densities = quadrant_densities (img_binary img);
          consistency = unclamped_consistency densities
      in py_min (Some 1) (py_max (Some 0) consistency))"

subsection \<open>extract\_visual\_features\<close>

text \<open>\<open>round(x, 2)\<close>.\<close>

definition round2 :: "npfloat \<Rightarrow> npfloat" where
  "round2 a = map_option (\<lambda>x. real_of_int (np_around (x * 100)) / 100) a"

definition visual_features_of :: "page_image \<Rightarrow> visual_features" where
  "visual_features_of img_cv =
     (let signatures = detect_signature_regions img_cv;
          stamps = detect_stamp_regions img_cv;
          layout_score = analyze_layout_consistency img_cv;
          score = 0;
          score = (if length signatures = 0 then score + 30 else score);
          score = (if 2 < length stamps then score + 20 else score);
          score = (if float_lt layout_score (Some (7 / 10)) then score + 25 else score)
      in \<lparr>vf_error = None,
          signatures_detected = Some (length signatures),
          stamps_detected = Some (length stamps),
          layout_consistency_score = round2 layout_score,
          visual_risk_score = Some score,
          anomalies = Some (detect_visual_anomalies img_cv)\<rparr>)"

definition extract_visual_features :: "page_image outcome list outcome \<Rightarrow> visual_features" where
  "extract_visual_features render =
     (case render of
        Raises e \<Rightarrow>
          \<lparr>vf_error = Some e, signatures_detected = None, stamps_detected = None,
           layout_consistency_score = None, visual_risk_score = Some 50, anomalies = None\<rparr>
      | Returns [] \<Rightarrow>
          \<lparr>vf_error = Some ''Could not convert PDF to image'', signatures_detected = None,
           stamps_detected = None, layout_consistency_score = None,
           visual_risk_score = None, anomalies = None\<rparr>
      | Returns (Raises e # _) \<Rightarrow>
          \<lparr>vf_error = Some e, signatures_detected = None, stamps_detected = None,
           layout_consistency_score = None, visual_risk_score = Some 50, anomalies = None\<rparr>
      | Returns (Returns img_cv # _) \<Rightarrow> visual_features_of img_cv)"

subsection \<open>calculate\_combined\_risk, generate\_recommendations, analyze\_document\<close>

definition calculate_combined_risk :: "m_text_features \<Rightarrow> visual_features \<Rightarrow> real" where
  "calculate_combined_risk tf vf =
     (let text_score = real_of_int (get_or 0 (text_risk_score tf));
          visual_score = real_of_int (get_or 0 (visual_risk_score vf));
          combined = text_score * (6 / 10) + visual_score * (4 / 10);
          combined = (if get_or 0 (signatures_detected vf) = 0 then combined + 10 else combined);
          combined = (if 3 < length (get_or [] (m_monetary_amounts tf)) then combined + 5
                      else combined)
      in min 100 combined)"

definition m_generate_recommendations ::
  "real \<Rightarrow> visual_features \<Rightarrow> m_text_features \<Rightarrow> string list" where
  "m_generate_recommendations risk_score vf tf =
     (let recommendations =
            (if 70 \<le> risk_score then [''HIGH RISK: Recommend legal review before signing'']
             else if 40 \<le> risk_score then [''MEDIUM RISK: Review highlighted sections carefully'']
             else [''LOW RISK: Standard document, safe to proceed'']);
          recommendations = append_if (get_or 0 (signatures_detected vf) = 0)
            ''No signatures detected - ensure proper signing'' recommendations;
          recommendations = append_if (0 < length (get_or [] (m_high_risk_sections tf)))
            ''Review high-risk sections for unfavorable terms'' recommendations;
          recommendations = append_if (get_or [] (anomalies vf) \<noteq> [])
            ''Visual anomalies detected - verify document authenticity'' recommendations
      in recommendations)"

text \<open>
  Text extraction comes first and has no handler: what it raises leaves
  \<open>analyze_document\<close>. The visual step always returns a dictionary.
\<close>

definition m_analyze_document :: "regex_lib \<Rightarrow> m_document \<Rightarrow> m_results outcome" where
  "m_analyze_document re doc =
     (case m_extract_text_features re (m_parse doc) of
        Raises e \<Rightarrow> Raises e
      | Returns tf \<Rightarrow>
          (let vf = extract_visual_features (m_render doc);
               score = calculate_combined_risk tf vf
           in Returns \<lparr>m_filename = basename (m_pdf_path doc), m_timestamp = m_now doc,
                       visual_analysis = vf, m_text_analysis = tf,
                       combined_risk_score = score,
                       m_recommendations = m_generate_recommendations score vf tf\<rparr>))"

section \<open>The specification's wording\<close>


text \<open>
  The two passes of the high-risk-section extraction as the specification words them:
  every match of every phrase pattern, with the text from 100 characters before the
  match to 100 characters behind it as context and severity HIGH; then every paragraph
  between blank lines with at least three distinct keywords, MEDIUM for three or four of
  them and HIGH from five on, cut to 300 characters and an ellipsis when it is longer.
\<close>

definition distinct_hits :: "string \<Rightarrow> nat" where
  "distinct_hits para = card {keyword \<in> set risk_keywords. py_in keyword (py_lower para)}"

definition spec_phrase_pass :: "string \<Rightarrow> risk_section list" where
  "spec_phrase_pass text =
     concat (map (\<lambda>pattern.
                    map (\<lambda>(s, e). \<lparr>sec_pattern = pattern,
                                    sec_context = slice text (s - 100) (e + 100),
                                    sec_level = HIGH\<rparr>)
                        (re_finditer pattern text))
                 high_risk_patterns)"

text \<open>
  The phrase pass with what the code adds to it: the window is stripped of the
  whitespace at its two ends.
\<close>

definition stripped_phrase_pass :: "string \<Rightarrow> risk_section list" where
  "stripped_phrase_pass text =
     concat (map (\<lambda>pattern.
                    map (\<lambda>(s, e). \<lparr>sec_pattern = pattern,
                                    sec_context = py_strip (slice text (s - 100) (e + 100)),
                                    sec_level = HIGH\<rparr>)
                        (re_finditer pattern text))
                 high_risk_patterns)"

definition spec_paragraph_pass :: "string \<Rightarrow> risk_section list" where
  "spec_paragraph_pass text =
     map (\<lambda>para. \<lparr>sec_pattern = py_str (distinct_hits para) @ '' risk keywords'',
                    sec_context = (if length para \<le> 300 then para else take 300 para @ ''...''),
                    sec_level = (if distinct_hits para = 3 \<or> distinct_hits para = 4
                                 then MEDIUM else HIGH)\<rparr>)
         (filter (\<lambda>para. 3 \<le> distinct_hits para) (py_split text [CHR 0x0A, CHR 0x0A]))"

section \<open>Sample inputs\<close>

text \<open>The empty dictionary.\<close>

definition empty_dict :: text_analysis where
  "empty_dict = \<lparr>ta_error = None, total_characters = None, total_words = None,
     page_count = None, risk_keywords_found = None, keyword_breakdown = None,
     monetary_amounts = None, dates_found = None, emails_found = None,
     signature_indicators = None, high_risk_sections = None\<rparr>"


definition scored :: "nat \<Rightarrow> string list \<Rightarrow> nat \<Rightarrow> text_analysis" where
  "scored keywords amounts indicators =
     empty_dict\<lparr>risk_keywords_found := Some keywords,
                 monetary_amounts := Some amounts,
                 signature_indicators := Some indicators\<rparr>"

definition no_regex :: regex_lib where
  "no_regex = \<lparr>findall_money = (\<lambda>i text. []), findall_dates = (\<lambda>text. []),
                findall_emails = (\<lambda>text. []), findall_money_combined = (\<lambda>text. [])\<rparr>"

definition broken_doc :: document where
  "broken_doc = \<lparr>pdf_path = ''contracts/broken.pdf'', doc_now = ''2024-01-01T00:00:00'',
                  doc_parse = Raises ''EOF marker not found''\<rparr>"

definition broken_m_doc :: m_document where
  "broken_m_doc = \<lparr>m_pdf_path = ''contracts/broken.pdf'', m_now = ''2024-01-01T00:00:00'',
                    m_parse = Raises ''EOF marker not found'', m_render = Returns []\<rparr>"

definition sample_text :: string where
  "sample_text =
     ''Unlimited  Liability.'' @ [CHR 0x0A, CHR 0x0A] @
     ''breach, default, penalty'' @ [CHR 0x0A, CHR 0x0A] @
     ''Waive all rights''"

text \<open>A text that begins with three spaces.\<close>

definition padded_text :: string where
  "padded_text = ''   unlimited liability''"

text \<open>A dictionary that scores HIGH and triggers the three keyword advisories.\<close>

definition risky_contract :: text_analysis where
  "risky_contract =
     (scored 25 [''$1'', ''$2'', ''$3'', ''$4'', ''$5'', ''$6'', ''$7''] 0)
       \<lparr>keyword_breakdown :=
          Some [(''termination'', 10), (''indemnify'', 9), (''proprietary'', 6)]\<rparr>"

text \<open>The risk assessment inside the outcome of \<open>analyze_document\<close>, if it returned.\<close>

definition risk_assessment_of :: "analysis_result outcome \<Rightarrow> risk_assessment option" where
  "risk_assessment_of out = (case out of Raises e \<Rightarrow> None | Returns r \<Rightarrow> Some (risk_assessment r))"

text \<open>A blank page: no ink in any quadrant, nothing detected.\<close>

definition blank_page :: page_image where
  "blank_page = \<lparr>img_contours = [], img_circles = None, img_binary = [[0, 0], [0, 0]],
                  img_hist_max = 0, img_hist_mean = 0, img_keypoints = 0\<rparr>"

text \<open>
  A page without signature-like contours, with three circles, whose upper quadrants are
  one third ink and whose lower quadrants are all ink: densities 1/3, 1/3, 1, 1.
\<close>

definition stamped_page :: page_image where
  "stamped_page =
     \<lparr>img_contours = [],
      img_circles = Some [(100, 100, 40), (300, 100, 40), (500, 100, 40)],
      img_binary = [[255, 0, 0, 255, 0, 0], [255, 255, 255, 255, 255, 255]],
      img_hist_max = 5, img_hist_mean = 1, img_keypoints = 10\<rparr>"

text \<open>A regular-expression library that finds four amounts in every text.\<close>

definition four_money_regex :: regex_lib where
  "four_money_regex = no_regex\<lparr>findall_money_combined := (\<lambda>text. [''$1'', ''$2'', ''$3'', ''$4''])\<rparr>"

text \<open>A readable one-page file whose rendered page makes the image library raise.\<close>

definition one_page :: pdf_reader where
  "one_page = \<lparr>pdf_pages = [Returns ''breach of liability''], pdf_metadata = None,
                pdf_is_encrypted = False\<rparr>"

definition degraded_doc :: m_document where
  "degraded_doc = \<lparr>m_pdf_path = ''signed.pdf'', m_now = ''2024-01-01T00:00:00'',
                    m_parse = Returns one_page,
                    m_render = Returns [Raises ''cv2.error'']\<rparr>"

definition degraded_result :: m_results where
  "degraded_result =
     \<lparr>m_filename = ''signed.pdf'', m_timestamp = ''2024-01-01T00:00:00'',
      visual_analysis =
        \<lparr>vf_error = Some ''cv2.error'', signatures_detected = None, stamps_detected = None,
         layout_consistency_score = None, visual_risk_score = Some 50, anomalies = None\<rparr>,
      m_text_analysis =
        \<lparr>m_page_count = 1, m_total_words = 3, m_risk_keywords_found = 2,
         m_monetary_amounts = Some [], text_risk_score = Some 10,
         m_high_risk_sections = Some [''breach of liability ...'']\<rparr>,
      combined_risk_score = 36,
      m_recommendations =
        [''LOW RISK: Standard document, safe to proceed'',
         ''No signatures detected - ensure proper signing'',
         ''Review high-risk sections for unfavorable terms'']\<rparr>"

section \<open>Detailed-mode scoring\<close>

lemmas eval_defs = get_or_def empty_dict_def py_lower_def lower_char_def upper_chars_def
  lower_chars_def starts_with_def


lemma high_amount_loop_bounds:
  "0 \<le> financial \<Longrightarrow> financial \<le> 30 \<Longrightarrow>
   0 \<le> high_amount_loop financial amounts \<and> high_amount_loop financial amounts \<le> 30"
  by (induction amounts) auto




text \<open>
  C5: for every text-analysis dictionary the keyword, financial, compliance and signature
  sub-scores lie in [0,40], [0,30], [0,20] and [0,10]; the overall score is their sum and
  lies in [0,100].
\<close>

theorem sub_score_caps:
  "0 \<le> keyword_risk (assess_risks ta) \<and> keyword_risk (assess_risks ta) \<le> 40
   \<and> 0 \<le> financial_risk (assess_risks ta) \<and> financial_risk (assess_risks ta) \<le> 30
   \<and> 0 \<le> compliance_risk (assess_risks ta) \<and> compliance_risk (assess_risks ta) \<le> 20
   \<and> 0 \<le> signature_risk (assess_risks ta) \<and> signature_risk (assess_risks ta) \<le> 10
   \<and> overall_risk (assess_risks ta) =
       keyword_risk (assess_risks ta) + financial_risk (assess_risks ta)
       + compliance_risk (assess_risks ta) + signature_risk (assess_risks ta)
   \<and> 0 \<le> overall_risk (assess_risks ta) \<and> overall_risk (assess_risks ta) \<le> 100"
proof -
  let ?amounts = "get_or [] (monetary_amounts ta)"
  have fin: "0 \<le> high_amount_loop (min 30 (int (length ?amounts) * 5)) ?amounts
      \<and> high_amount_loop (min 30 (int (length ?amounts) * 5)) ?amounts \<le> 30"
    by (rule high_amount_loop_bounds) simp_all
  then show ?thesis
    by (auto simp: assess_risks_def Let_def)
qed

text \<open>
  C5 at 25 keyword hits, seven amounts and no signature indicator: the keyword and
  financial caps are reached (40 and 30, not 50 and 35), the overall score is 80.
\<close>

theorem sub_score_caps_witness:
  "keyword_risk (assess_risks (scored 25 [''$1'', ''$2'', ''$3'', ''$4'', ''$5'', ''$6'', ''$7''] 0)) = 40
   \<and> financial_risk (assess_risks (scored 25 [''$1'', ''$2'', ''$3'', ''$4'', ''$5'', ''$6'', ''$7''] 0)) = 30
   \<and> signature_risk (assess_risks (scored 25 [''$1'', ''$2'', ''$3'', ''$4'', ''$5'', ''$6'', ''$7''] 0)) = 10
   \<and> overall_risk (assess_risks (scored 25 [''$1'', ''$2'', ''$3'', ''$4'', ''$5'', ''$6'', ''$7''] 0)) = 80
   \<and> overall_risk (assess_risks (scored 25 [''$1'', ''$2'', ''$3'', ''$4'', ''$5'', ''$6'', ''$7''] 0)) \<le> 100"
  using sub_score_caps [of "scored 25 [''$1'', ''$2'', ''$3'', ''$4'', ''$5'', ''$6'', ''$7''] 0"]
  by code_simp

text \<open>
  C6: the level is fixed by the overall score alone: HIGH from 70 on, MEDIUM from 40 to
  below 70, LOW below 40.
\<close>

theorem risk_level_thresholds:
  "(70 \<le> overall_risk (assess_risks ta) \<longrightarrow> risk_level (assess_risks ta) = HIGH)
   \<and> (40 \<le> overall_risk (assess_risks ta) \<and> overall_risk (assess_risks ta) < 70
        \<longrightarrow> risk_level (assess_risks ta) = MEDIUM)
   \<and> (overall_risk (assess_risks ta) < 40 \<longrightarrow> risk_level (assess_risks ta) = LOW)"
  by (simp add: assess_risks_def Let_def)

lemma scored_overall:
  "overall_risk (assess_risks (scored 20 [''$1'', ''$2'', ''$3'', ''$4'', ''$5'', ''$6''] 2)) = 70"
  "overall_risk (assess_risks (scored 20 [] 2)) = 40"
  "overall_risk (assess_risks (scored 17 [''$1''] 2)) = 39"
  "overall_risk (assess_risks (scored 0 [] 2)) = 0"
  by code_simp+

text \<open>
  C6 at inputs whose overall scores are exactly 70, 40, 39 and 0: HIGH, MEDIUM, LOW, LOW.
\<close>

theorem risk_level_thresholds_witness:
  "overall_risk (assess_risks (scored 20 [''$1'', ''$2'', ''$3'', ''$4'', ''$5'', ''$6''] 2)) = 70
   \<and> risk_level (assess_risks (scored 20 [''$1'', ''$2'', ''$3'', ''$4'', ''$5'', ''$6''] 2)) = HIGH
   \<and> overall_risk (assess_risks (scored 20 [] 2)) = 40
   \<and> risk_level (assess_risks (scored 20 [] 2)) = MEDIUM
   \<and> overall_risk (assess_risks (scored 17 [''$1''] 2)) = 39
   \<and> risk_level (assess_risks (scored 17 [''$1''] 2)) = LOW
   \<and> overall_risk (assess_risks (scored 0 [] 2)) = 0
   \<and> risk_level (assess_risks (scored 0 [] 2)) = LOW"
  using risk_level_thresholds [of "scored 20 [''$1'', ''$2'', ''$3'', ''$4'', ''$5'', ''$6''] 2"]
    risk_level_thresholds [of "scored 20 [] 2"]
    risk_level_thresholds [of "scored 17 [''$1''] 2"]
    risk_level_thresholds [of "scored 0 [] 2"]
  by (simp add: scored_overall)

section \<open>Recommendations of the detailed mode\<close>

lemma append_if_eq:
  "append_if cond line recs = recs @ (if cond then [line] else [])"
  by (simp add: append_if_def)

text \<open>
  C8, as the code has it: the list begins with the line of the risk level (HIGH, MEDIUM
  and LOW have distinct fixed wordings); HIGH adds a second line ``proceed with extreme
  caution'' and MEDIUM adds a second line ``consider consulting legal counsel'', LOW has
  one line only. The advisories follow in the order of insertion: signature risk above 0,
  financial risk at least 20, compliance risk at least 15, more than five high-risk
  sections, then the keyword lines for ``indemnify'' (or ``indemnification''),
  ``termination'' and ``confidential''/``proprietary''.
\<close>

theorem recommendation_order:
  "generate_recommendations ra ta =
     (if risk_level ra = HIGH then
        [''HIGH RISK: Strongly recommend legal review before signing'',
         ''Multiple risk factors detected - proceed with extreme caution'']
      else if risk_level ra = MEDIUM then
        [''MEDIUM RISK: Review highlighted sections carefully'',
         ''Consider consulting legal counsel for specific clauses'']
      else [''LOW RISK: Document appears standard, but always review before signing''])
     @ (if 0 < signature_risk ra
        then [''No signature indicators found - ensure proper execution''] else [])
     @ (if 20 \<le> financial_risk ra
        then [''High financial exposure detected - verify all monetary commitments''] else [])
     @ (if 15 \<le> compliance_risk ra
        then [''Multiple compliance concerns - ensure regulatory alignment''] else [])
     @ (if 5 < length (get_or [] (high_risk_sections ta))
        then [''Numerous high-risk sections found - detailed review essential''] else [])
     @ (if has_key ''indemnify'' (get_or [] (keyword_breakdown ta))
           \<or> has_key ''indemnification'' (get_or [] (keyword_breakdown ta))
        then [''Indemnification clauses present - review liability exposure''] else [])
     @ (if has_key ''termination'' (get_or [] (keyword_breakdown ta))
        then [''Review termination clauses and exit strategies''] else [])
     @ (if has_key ''confidential'' (get_or [] (keyword_breakdown ta))
           \<or> has_key ''proprietary'' (get_or [] (keyword_breakdown ta))
        then [''Confidentiality obligations present - ensure compliance capability''] else [])"
  by (simp only: generate_recommendations_def Let_def append_if_eq append_assoc)

text \<open>
  C8 at a dictionary that scores HIGH, has no signature indicator, seven amounts and the
  keywords termination, indemnify and proprietary: seven lines, in the stated order.
\<close>

theorem recommendation_order_witness:
  "generate_recommendations (assess_risks risky_contract) risky_contract =
     [''HIGH RISK: Strongly recommend legal review before signing'',
      ''Multiple risk factors detected - proceed with extreme caution'',
      ''No signature indicators found - ensure proper execution'',
      ''High financial exposure detected - verify all monetary commitments'',
      ''Indemnification clauses present - review liability exposure'',
      ''Review termination clauses and exit strategies'',
      ''Confidentiality obligations present - ensure compliance capability'']"
proof -
  have ra: "assess_risks risky_contract =
      \<lparr>keyword_risk = 40, financial_risk = 30, compliance_risk = 0, signature_risk = 10,
       overall_risk = 80, risk_level = HIGH\<rparr>"
    by code_simp
  have ta: "get_or [] (keyword_breakdown risky_contract) =
        [(''termination'', 10), (''indemnify'', 9), (''proprietary'', 6)]"
      "get_or [] (high_risk_sections risky_contract) = []"
    by (simp_all add: risky_contract_def scored_def eval_defs)
  show ?thesis
    unfolding recommendation_order [of "assess_risks risky_contract" risky_contract]
    by (simp add: ra ta has_key_def)
qed

text \<open>
  C8 as stated fails: at an assessment of level MEDIUM (overall score 40) the list has a
  second line keyed by the level, although the level is not HIGH.
\<close>

theorem medium_second_line_counterexample:
  "risk_level (assess_risks (scored 20 [] 2)) = MEDIUM
   \<and> generate_recommendations (assess_risks (scored 20 [] 2)) (scored 20 [] 2) =
       [''MEDIUM RISK: Review highlighted sections carefully'',
        ''Consider consulting legal counsel for specific clauses'']"
  by code_simp

section \<open>High-risk sections\<close>

text \<open>Appending in a loop is concatenation; the two loops are a map and a filter.\<close>

lemma foldl_append_each:
  "foldl (\<lambda>acc x. acc @ [f x]) acc xs = acc @ map f xs"
  by (induction xs arbitrary: acc) auto

lemma pattern_loop_eq:
  "pattern_loop text sections pattern =
     sections @ map (match_section text pattern) (re_finditer pattern text)"
  by (simp add: pattern_loop_def foldl_append_each)

lemma pattern_pass_eq:
  "foldl (pattern_loop text) acc patterns =
     acc @ concat (map (\<lambda>pattern. map (match_section text pattern) (re_finditer pattern text))
                       patterns)"
  by (induction patterns arbitrary: acc) (auto simp: pattern_loop_eq)

lemma para_pass_eq:
  "foldl para_loop acc paragraphs =
     acc @ map (\<lambda>para. para_section para (para_risk_count para))
               (filter (\<lambda>para. 3 \<le> para_risk_count para) paragraphs)"
  by (induction paragraphs arbitrary: acc) (auto simp: para_loop_def Let_def)

lemma slice_clamped: "slice xs a (min (length xs) b) = slice xs a b"
  by (simp add: slice_def min_def)

lemma match_section_window:
  "match_section text pattern (s, e) =
     \<lparr>sec_pattern = pattern, sec_context = py_strip (slice text (s - 100) (e + 100)),
      sec_level = HIGH\<rparr>"
proof -
  have "nat (max 0 (int s - 100)) = s - 100" by simp
  then show ?thesis
    by (simp add: match_section_def Let_def slice_clamped)
qed

lemma distinct_risk_keywords: "distinct risk_keywords"
  by (simp add: risk_keywords_def)

lemma para_risk_count_distinct: "para_risk_count para = distinct_hits para"
proof -
  have "length (filter (\<lambda>k. py_in k (py_lower para)) risk_keywords) =
        card {k \<in> set risk_keywords. py_in k (py_lower para)}"
    using distinct_risk_keywords by (simp add: distinct_card[symmetric] )
  then show ?thesis by (simp add: para_risk_count_def distinct_hits_def Let_def)
qed

text \<open>
  C9, as the code has it: the extraction is two passes. Every match of a high-risk
  phrase pattern yields a section of severity HIGH whose context is the window from 100
  characters before the match to 100 characters behind it, stripped of the whitespace at
  its two ends; then every paragraph between blank lines with at least three distinct
  keywords yields a section, MEDIUM for three or four keywords and HIGH from five on,
  with the paragraph cut to 300 characters and an ellipsis when it is longer. The
  phrase sections come before the paragraph sections, each pass in the order of
  discovery, and the list is cut to its first ten sections.
\<close>

theorem high_risk_sections_two_passes:
  "find_high_risk_sections text =
     take 10 (stripped_phrase_pass text @ spec_paragraph_pass text)
   \<and> length (find_high_risk_sections text) \<le> 10"
proof -
  have phrase: "concat (map (\<lambda>pattern. map (match_section text pattern) (re_finditer pattern text))
                       high_risk_patterns) = stripped_phrase_pass text"
    unfolding stripped_phrase_pass_def
    by (rule arg_cong[where f = concat], rule map_cong[OF refl], rule map_cong[OF refl])
       (auto simp: match_section_window)
  have para: "map (\<lambda>para. para_section para (para_risk_count para))
                  (filter (\<lambda>para. 3 \<le> para_risk_count para) (py_split text [CHR 0x0A, CHR 0x0A]))
              = spec_paragraph_pass text"
    unfolding spec_paragraph_pass_def para_risk_count_distinct
    by (rule map_cong[OF refl]) (auto simp: para_section_def)
  have "find_high_risk_sections text =
        take 10 (stripped_phrase_pass text @ spec_paragraph_pass text)"
    by (simp add: find_high_risk_sections_def Let_def pattern_pass_eq para_pass_eq phrase para)
  then show ?thesis by simp
qed

lemma sample_sections:
  "find_high_risk_sections sample_text =
     [\<lparr>sec_pattern = ''unlimited'' @ [backslash] @ ''s+liability'',
       sec_context = sample_text, sec_level = HIGH\<rparr>,
      \<lparr>sec_pattern = ''waive'' @ [backslash] @ ''s+all'' @ [backslash] @ ''s+rights'',
       sec_context = sample_text, sec_level = HIGH\<rparr>,
      \<lparr>sec_pattern = ''3 risk keywords'',
       sec_context = ''breach, default, penalty'',
       sec_level = MEDIUM\<rparr>]"
  by code_simp

text \<open>
  C9 at a text of three paragraphs: two phrase matches (whose 100-character windows
  cover the whole text) come first, then the one paragraph with three distinct keywords.
\<close>

theorem high_risk_sections_two_passes_witness:
  "take 10 (stripped_phrase_pass sample_text @ spec_paragraph_pass sample_text) =
     [\<lparr>sec_pattern = ''unlimited'' @ [backslash] @ ''s+liability'',
       sec_context = sample_text, sec_level = HIGH\<rparr>,
      \<lparr>sec_pattern = ''waive'' @ [backslash] @ ''s+all'' @ [backslash] @ ''s+rights'',
       sec_context = sample_text, sec_level = HIGH\<rparr>,
      \<lparr>sec_pattern = ''3 risk keywords'',
       sec_context = ''breach, default, penalty'',
       sec_level = MEDIUM\<rparr>]"
  by (rule trans [OF conjunct1 [OF high_risk_sections_two_passes [of sample_text], symmetric]
        sample_sections])

text \<open>The two sides on the text that begins with three spaces.\<close>

lemma padded_spec_phrase_pass:
  "spec_phrase_pass padded_text =
     [\<lparr>sec_pattern = ''unlimited'' @ [backslash] @ ''s+liability'',
       sec_context = ''   unlimited liability'', sec_level = HIGH\<rparr>]"
  by code_simp

lemma padded_spec_paragraph_pass: "spec_paragraph_pass padded_text = []"
proof -
  have "para_risk_count padded_text = 1"
    by code_simp
  then have "distinct_hits padded_text = 1"
    by (simp add: para_risk_count_distinct)
  moreover have "py_split padded_text [CHR 0x0A, CHR 0x0A] = [padded_text]"
    by code_simp
  ultimately show ?thesis
    by (simp add: spec_paragraph_pass_def)
qed

text \<open>
  C9 as stated fails: on the text ``   unlimited liability'' the window of 100 characters
  around the match is the whole text, three leading spaces included, while the context
  that the code returns is ``unlimited liability''.
\<close>

theorem stripped_window_counterexample:
  "find_high_risk_sections padded_text =
     [\<lparr>sec_pattern = ''unlimited'' @ [backslash] @ ''s+liability'',
       sec_context = ''unlimited liability'', sec_level = HIGH\<rparr>]
   \<and> take 10 (spec_phrase_pass padded_text @ spec_paragraph_pass padded_text) =
     [\<lparr>sec_pattern = ''unlimited'' @ [backslash] @ ''s+liability'',
       sec_context = ''   unlimited liability'', sec_level = HIGH\<rparr>]
   \<and> find_high_risk_sections padded_text \<noteq>
       take 10 (spec_phrase_pass padded_text @ spec_paragraph_pass padded_text)"
proof -
  have code: "find_high_risk_sections padded_text =
     [\<lparr>sec_pattern = ''unlimited'' @ [backslash] @ ''s+liability'',
       sec_context = ''unlimited liability'', sec_level = HIGH\<rparr>]"
    by code_simp
  have spec: "take 10 (spec_phrase_pass padded_text @ spec_paragraph_pass padded_text) =
     [\<lparr>sec_pattern = ''unlimited'' @ [backslash] @ ''s+liability'',
       sec_context = ''   unlimited liability'', sec_level = HIGH\<rparr>]"
    by (simp add: padded_spec_phrase_pass padded_spec_paragraph_pass)
  have "''unlimited liability'' \<noteq> ''   unlimited liability''"
    by simp
  then show ?thesis
    unfolding code spec by simp
qed

section \<open>A file that cannot be parsed\<close>

text \<open>
  C3, as the code has it: when the file cannot be parsed, the text-only pipeline absorbs
  the failure and still returns a complete result, whose metadata and text analysis carry
  the error message, with zero keyword hits, signature risk 10, overall risk 10, level LOW
  and the two recommendations that follow from these; the combined pipeline has no handler
  around its text extraction, so there the error reaches the caller and no result is
  produced.
\<close>

theorem parse_failure_handling:
  "(doc_parse doc = Raises e \<longrightarrow>
      analyze_document re doc =
        Returns \<lparr>filename = basename (pdf_path doc), timestamp = doc_now doc,
                 metadata = \<lparr>md_error = Some e, md_pages = None, md_title = None,
                             md_author = None, md_subject = None, md_creator = None,
                             md_producer = None, md_creation_date = None,
                             md_modification_date = None, md_encrypted = None\<rparr>,
                 text_analysis = error_dict e,
                 risk_assessment = \<lparr>keyword_risk = 0, financial_risk = 0, compliance_risk = 0,
                                    signature_risk = 10, overall_risk = 10, risk_level = LOW\<rparr>,
                 recommendations =
                   [''LOW RISK: Document appears standard, but always review before signing'',
                    ''No signature indicators found - ensure proper execution'']\<rparr>)
   \<and> (m_parse mdoc = Raises e \<longrightarrow> m_analyze_document re mdoc = Raises e)"
proof -
  have ra: "assess_risks (error_dict e) =
      \<lparr>keyword_risk = 0, financial_risk = 0, compliance_risk = 0, signature_risk = 10,
       overall_risk = 10, risk_level = LOW\<rparr>"
    by (simp add: assess_risks_def error_dict_def get_or_def)
  have recs: "generate_recommendations
      \<lparr>keyword_risk = 0, financial_risk = 0, compliance_risk = 0, signature_risk = 10,
       overall_risk = 10, risk_level = LOW\<rparr> (error_dict e) =
      [''LOW RISK: Document appears standard, but always review before signing'',
       ''No signature indicators found - ensure proper execution'']"
    by (simp add: generate_recommendations_def append_if_def error_dict_def get_or_def
          has_key_def)
  show ?thesis
    by (simp add: analyze_document_def m_analyze_document_def extract_metadata_def
          extract_text_features_def m_extract_text_features_def Let_def ra recs)
qed

text \<open>C3 at a file on which the parser raises ``EOF marker not found''.\<close>

theorem parse_failure_handling_witness:
  "doc_parse broken_doc = Raises ''EOF marker not found''
   \<and> m_parse broken_m_doc = Raises ''EOF marker not found''
   \<and> risk_assessment_of (analyze_document no_regex broken_doc) =
       Some \<lparr>keyword_risk = 0, financial_risk = 0, compliance_risk = 0,
             signature_risk = 10, overall_risk = 10, risk_level = LOW\<rparr>
   \<and> m_analyze_document no_regex broken_m_doc = Raises ''EOF marker not found''"
  using parse_failure_handling [of broken_doc "''EOF marker not found''" no_regex broken_m_doc]
  by (simp add: broken_doc_def broken_m_doc_def risk_assessment_of_def)

text \<open>
  C3 as stated fails: for the unparseable file the text-only \<open>analyze_document\<close> does
  not raise; it returns this result.
\<close>

theorem parse_failure_counterexample:
  "analyze_document no_regex broken_doc =
     Returns \<lparr>filename = ''broken.pdf'', timestamp = ''2024-01-01T00:00:00'',
              metadata = \<lparr>md_error = Some ''EOF marker not found'', md_pages = None,
                          md_title = None, md_author = None, md_subject = None,
                          md_creator = None, md_producer = None, md_creation_date = None,
                          md_modification_date = None, md_encrypted = None\<rparr>,
              text_analysis = error_dict ''EOF marker not found'',
              risk_assessment = \<lparr>keyword_risk = 0, financial_risk = 0, compliance_risk = 0,
                                 signature_risk = 10, overall_risk = 10, risk_level = LOW\<rparr>,
              recommendations =
                [''LOW RISK: Document appears standard, but always review before signing'',
                 ''No signature indicators found - ensure proper execution'']\<rparr>"
  by code_simp

section \<open>Layout consistency\<close>

lemmas float_defs = float_div_def float_sub_def float_gt_def float_lt_def py_min_def py_max_def

lemma clamp_range:
  "\<exists>r. py_min (Some 1) (py_max (Some 0) c) = Some r \<and> 0 \<le> r \<and> r \<le> 1
       \<and> (\<forall>x. c = Some x \<longrightarrow> r = min 1 (max 0 x))"
  by (cases c) (auto simp: float_defs)

lemma np_mean_floats_Some:
  "np_mean_floats ds = Some m \<Longrightarrow> \<exists>xs. those ds = Some xs \<and> xs \<noteq> [] \<and> np_mean xs = Some m"
  by (auto simp: np_mean_floats_def np_mean_def split: option.splits if_splits)

lemma np_std_floats_Some:
  "np_mean_floats ds = Some m \<Longrightarrow> \<exists>s. np_std_floats ds = Some s"
  by (auto simp: np_std_floats_def np_mean_floats_def np_mean_def split: option.splits if_splits)

lemma unclamped_finite:
  "\<exists>c. unclamped_consistency ds = Some c"
proof (cases "float_gt (np_mean_floats ds) (Some 0)")
  case True
  then obtain m where m: "np_mean_floats ds = Some m" "0 < m"
    by (auto simp: float_gt_def split: option.splits)
  from np_std_floats_Some[OF m(1)] obtain s where "np_std_floats ds = Some s" by blast
  with m True show ?thesis
    by (simp add: unclamped_consistency_def float_defs)
next
  case False
  then show ?thesis by (simp add: unclamped_consistency_def float_defs)
qed

lemma unclamped_zero_mean:
  "np_mean_floats ds = Some 0 \<Longrightarrow> unclamped_consistency ds = Some 1"
  by (simp add: unclamped_consistency_def float_defs)

text \<open>
  C1, as the code has it: for every page the consistency before clamping is a finite
  number and the result is that number clamped to [0,1]; the division is carried out
  only when the mean density is a positive number; and when the mean density of the four
  quadrants is 0, the ratio is taken as 0 and the result is 1 (not 0).
\<close>

theorem layout_consistency_range:
  "(\<exists>c r. unclamped_consistency (quadrant_densities (img_binary img)) = Some c
          \<and> analyze_layout_consistency img = Some r
          \<and> r = min 1 (max 0 c) \<and> 0 \<le> r \<and> r \<le> 1)
   \<and> (float_gt (np_mean_floats (quadrant_densities (img_binary img))) (Some 0) \<longrightarrow>
        (\<exists>s m. np_std_floats (quadrant_densities (img_binary img)) = Some s
             \<and> np_mean_floats (quadrant_densities (img_binary img)) = Some m \<and> 0 < m))
   \<and> (np_mean_floats (quadrant_densities (img_binary img)) = Some 0 \<longrightarrow>
        analyze_layout_consistency img = Some 1)"
proof -
  let ?ds = "quadrant_densities (img_binary img)"
  obtain c where c: "unclamped_consistency ?ds = Some c"
    using unclamped_finite by blast
  from clamp_range[of "Some c"] obtain r where
    r: "py_min (Some 1) (py_max (Some 0) (Some c)) = Some r" "0 \<le> r" "r \<le> 1" "r = min 1 (max 0 c)"
    by auto
  have res: "analyze_layout_consistency img = Some r"
    by (simp add: analyze_layout_consistency_def Let_def c r(1))
  have first: "\<exists>c r. unclamped_consistency ?ds = Some c \<and> analyze_layout_consistency img = Some r
          \<and> r = min 1 (max 0 c) \<and> 0 \<le> r \<and> r \<le> 1"
    using c res r by blast
  have guard: "float_gt (np_mean_floats ?ds) (Some 0) \<longrightarrow>
        (\<exists>s m. np_std_floats ?ds = Some s \<and> np_mean_floats ?ds = Some m \<and> 0 < m)"
  proof
    assume "float_gt (np_mean_floats ?ds) (Some 0)"
    then obtain m where m: "np_mean_floats ?ds = Some m" "0 < m"
      by (auto simp: float_gt_def split: option.splits)
    from np_std_floats_Some[OF m(1)] m show "\<exists>s m. np_std_floats ?ds = Some s \<and> np_mean_floats ?ds = Some m \<and> 0 < m"
      by blast
  qed
  have zero: "np_mean_floats ?ds = Some 0 \<longrightarrow> analyze_layout_consistency img = Some 1"
    by (simp add: analyze_layout_consistency_def Let_def unclamped_zero_mean float_defs)
  from first guard zero show ?thesis by blast
qed

lemma blank_densities:
  "quadrant_densities (img_binary blank_page) = [Some 0, Some 0, Some 0, Some 0]"
  by (simp add: blank_page_def quadrant_densities_def quadrant_def slice_def np_mean_def
        float_div_def)

lemma blank_mean: "np_mean_floats (quadrant_densities (img_binary blank_page)) = Some 0"
  by (simp add: blank_densities np_mean_floats_def np_mean_def)

lemma sqrt_ninth: "sqrt (1 / 9) = 1 / 3"
  by (rule real_sqrt_unique) (simp_all add: power2_eq_square)

lemma stamped_densities:
  "quadrant_densities (img_binary stamped_page) = [Some (1 / 3), Some (1 / 3), Some 1, Some 1]"
  by (simp add: stamped_page_def quadrant_densities_def quadrant_def slice_def np_mean_def
        float_div_def)

lemma stamped_consistency: "analyze_layout_consistency stamped_page = Some (1 / 2)"
proof -
  have m: "np_mean_floats [Some (1 / 3), Some (1 / 3), Some 1, Some (1::real)] = Some (2 / 3)"
    by (simp add: np_mean_floats_def np_mean_def)
  have s: "np_std_floats [Some (1 / 3), Some (1 / 3), Some 1, Some (1::real)] = Some (1 / 3)"
    by (simp add: np_std_floats_def np_mean_def power2_eq_square sqrt_ninth)
  show ?thesis
    by (simp add: analyze_layout_consistency_def Let_def stamped_densities
          unclamped_consistency_def m s float_defs)
qed

lemma stamped_mean:
  "float_gt (np_mean_floats (quadrant_densities (img_binary stamped_page))) (Some 0)"
  by (simp add: stamped_densities np_mean_floats_def np_mean_def float_gt_def)

text \<open>
  C1 at a page without ink (mean density 0, consistency 1) and at a page with densities
  1/3, 1/3, 1, 1 (mean 2/3, standard deviation 1/3, consistency 1/2).
\<close>

theorem layout_consistency_range_witness:
  "np_mean_floats (quadrant_densities (img_binary blank_page)) = Some 0
   \<and> analyze_layout_consistency blank_page = Some 1
   \<and> float_gt (np_mean_floats (quadrant_densities (img_binary stamped_page))) (Some 0)
   \<and> np_std_floats (quadrant_densities (img_binary stamped_page)) = Some (1 / 3)
   \<and> analyze_layout_consistency stamped_page = Some (1 / 2)"
proof -
  have s: "np_std_floats (quadrant_densities (img_binary stamped_page)) = Some (1 / 3)"
    by (simp add: stamped_densities np_std_floats_def np_mean_def power2_eq_square sqrt_ninth)
  from layout_consistency_range [of blank_page] layout_consistency_range [of stamped_page]
    blank_mean stamped_mean stamped_consistency s
  show ?thesis by simp
qed

text \<open>
  C1 as stated fails: on the page without ink the mean density is 0 and the consistency
  score is 1, not 0.
\<close>

theorem zero_density_counterexample:
  "np_mean_floats (quadrant_densities (img_binary blank_page)) = Some 0
   \<and> analyze_layout_consistency blank_page = Some 1
   \<and> analyze_layout_consistency blank_page \<noteq> Some 0"
  by (simp add: blank_mean analyze_layout_consistency_def unclamped_consistency_def float_defs)

section \<open>Failures of the visual step\<close>

text \<open>
  What holds of the claim: an exception of the renderer or of the image library gives a
  dictionary with the error message and the score 50, and \<open>analyze_document\<close> returns
  whenever the text extraction returned.
\<close>

lemma visual_exception_absorbed:
  "render = Raises e \<or> render = Returns (Raises e # rest) \<Longrightarrow>
   vf_error (extract_visual_features render) = Some e
   \<and> visual_risk_score (extract_visual_features render) = Some 50"
  by (auto simp: extract_visual_features_def)

lemma visual_failure_does_not_abort:
  "m_extract_text_features re (m_parse doc) = Returns tf \<Longrightarrow>
   \<exists>r. m_analyze_document re doc = Returns r
      \<and> visual_analysis r = extract_visual_features (m_render doc)"
  by (simp add: m_analyze_document_def Let_def)

text \<open>
  C2 at the failing input, a rendering that returns no image: the dictionary has the
  error message but no \<open>visual_risk_score\<close>, where the claim (and the handler of the
  exceptions next to it) give the fallback score 50.
\<close>

theorem no_image_path_has_no_score:
  "extract_visual_features (Returns []) =
     \<lparr>vf_error = Some ''Could not convert PDF to image'', signatures_detected = None,
      stamps_detected = None, layout_consistency_score = None,
      visual_risk_score = None, anomalies = None\<rparr>
   \<and> visual_risk_score (extract_visual_features (Returns [])) \<noteq> Some 50
   \<and> visual_risk_score (extract_visual_features (Raises ''poppler not installed'')) = Some 50"
  by (simp add: extract_visual_features_def)

section \<open>Scores of the combined mode\<close>

lemma visual_score_eq:
  "visual_risk_score (visual_features_of img) =
     Some ((if length (detect_signature_regions img) = 0 then 30 else 0)
         + (if 2 < length (detect_stamp_regions img) then 20 else 0)
         + (if float_lt (analyze_layout_consistency img) (Some (7 / 10)) then 25 else 0))"
  by (simp add: visual_features_of_def Let_def)

lemma visual_score_range:
  "visual_risk_score (visual_features_of img) = Some v \<Longrightarrow> 0 \<le> v \<and> v \<le> 75"
  by (auto simp: visual_score_eq split: if_splits)

text \<open>
  C7: the visual score is 30 for no signature region, plus 20 for more than two stamp
  regions, plus 25 for a layout consistency below 0.7 (75 for no signature, three stamps
  and consistency 0.5); the combined score of the pipeline is
  \<open>0.6 \<times> min(100, 5 \<times> risk_keywords_found) + 0.4 \<times> visual_score\<close>, plus 10 without
  signatures and plus 5 for more than three amounts, clamped to [0,100]. Numbers are
  exact reals here; the rounding of floating-point arithmetic is not modelled.
\<close>

theorem combined_mode_formula:
  "visual_risk_score (visual_features_of img) =
     Some ((if length (detect_signature_regions img) = 0 then 30 else 0)
         + (if 2 < length (detect_stamp_regions img) then 20 else 0)
         + (if float_lt (analyze_layout_consistency img) (Some (7 / 10)) then 25 else 0))
   \<and> (length (detect_signature_regions img) = 0 \<and> length (detect_stamp_regions img) = 3
        \<and> analyze_layout_consistency img = Some (1 / 2)
      \<longrightarrow> visual_risk_score (visual_features_of img) = Some 75)
   \<and> (\<forall>v. visual_risk_score (visual_features_of img) = Some v \<longrightarrow>
        calculate_combined_risk (m_text_features_of re pages full_text) (visual_features_of img) =
          min 100 (max 0
            (6 / 10 * real_of_int (min 100 (5 * int (m_risk_keywords_found
                                       (m_text_features_of re pages full_text))))
             + 4 / 10 * real_of_int v
             + (if length (detect_signature_regions img) = 0 then 10 else 0)
             + (if 3 < length (findall_money_combined re full_text) then 5 else 0))))
   \<and> 0 \<le> calculate_combined_risk (m_text_features_of re pages full_text) (visual_features_of img)
   \<and> calculate_combined_risk (m_text_features_of re pages full_text) (visual_features_of img) \<le> 100"
proof -
  let ?tf = "m_text_features_of re pages full_text"
  let ?vf = "visual_features_of img"
  let ?k = "int (m_risk_keywords_found ?tf)"
  obtain v where v: "visual_risk_score ?vf = Some v"
    by (simp add: visual_score_eq)
  have vr: "0 \<le> v" "v \<le> 75" using visual_score_range[OF v] by auto
  have ts: "text_risk_score ?tf = Some (min 100 (5 * ?k))"
    by (simp add: m_text_features_of_def Let_def mult.commute)
  have ma: "(3 < length (get_or [] (m_monetary_amounts ?tf))) =
            (3 < length (findall_money_combined re full_text))"
    by (auto simp: m_text_features_of_def Let_def get_or_def)
  have sd: "(get_or 0 (signatures_detected ?vf) = 0) = (length (detect_signature_regions img) = 0)"
    by (simp add: visual_features_of_def Let_def get_or_def)
  have tnn: "0 \<le> real_of_int (min 100 (5 * ?k))" by simp
  define x where "x = 6 / 10 * real_of_int (min 100 (5 * ?k)) + 4 / 10 * real_of_int v
      + (if length (detect_signature_regions img) = 0 then 10 else 0)
      + (if 3 < length (findall_money_combined re full_text) then 5 else 0)"
  have xnn: "0 \<le> x"
    using tnn vr by (auto simp: x_def)
  have calc: "calculate_combined_risk ?tf ?vf = min 100 x"
    unfolding calculate_combined_risk_def Let_def ts v ma sd x_def
    by (simp add: get_or_def mult.commute)
  have eq: "calculate_combined_risk ?tf ?vf = min 100 (max 0 x)"
    using calc xnn by (simp add: max_def)
  have range: "0 \<le> calculate_combined_risk ?tf ?vf" "calculate_combined_risk ?tf ?vf \<le> 100"
    using calc xnn by auto
  have scen: "length (detect_signature_regions img) = 0 \<and> length (detect_stamp_regions img) = 3
        \<and> analyze_layout_consistency img = Some (1 / 2)
      \<longrightarrow> visual_risk_score ?vf = Some 75"
    by (simp add: visual_score_eq float_lt_def)
  have third: "\<forall>w. visual_risk_score ?vf = Some w \<longrightarrow>
        calculate_combined_risk ?tf ?vf =
          min 100 (max 0
            (6 / 10 * real_of_int (min 100 (5 * ?k)) + 4 / 10 * real_of_int w
             + (if length (detect_signature_regions img) = 0 then 10 else 0)
             + (if 3 < length (findall_money_combined re full_text) then 5 else 0)))"
    using eq v by (simp add: x_def)
  from visual_score_eq scen third range show ?thesis by blast
qed

lemma stamped_detections:
  "length (detect_signature_regions stamped_page) = 0"
  "length (detect_stamp_regions stamped_page) = 3"
  by (simp_all add: detect_signature_regions_def detect_stamp_regions_def stamped_page_def)

lemma sample_keywords:
  "m_risk_keywords_found (m_text_features_of four_money_regex 1 ''breach of liability'') = 2"
  by code_simp

text \<open>
  C7 at a page with no signature, three stamps and consistency 0.5, and a text with two
  keyword hits and four amounts: visual score 75, combined score 6 + 30 + 10 + 5 = 51.
\<close>

theorem combined_mode_formula_witness:
  "length (detect_signature_regions stamped_page) = 0
   \<and> length (detect_stamp_regions stamped_page) = 3
   \<and> analyze_layout_consistency stamped_page = Some (1 / 2)
   \<and> visual_risk_score (visual_features_of stamped_page) = Some 75
   \<and> calculate_combined_risk (m_text_features_of four_money_regex 1 ''breach of liability'')
        (visual_features_of stamped_page) = 51"
proof -
  note inst = combined_mode_formula [of stamped_page four_money_regex 1 "''breach of liability''"]
  have v: "visual_risk_score (visual_features_of stamped_page) = Some 75"
    using inst stamped_detections stamped_consistency by blast
  have "calculate_combined_risk (m_text_features_of four_money_regex 1 ''breach of liability'')
        (visual_features_of stamped_page) =
        min 100 (max 0 (6 / 10 * real_of_int (min 100 (5 * int 2)) + 4 / 10 * real_of_int 75
             + (if length (detect_signature_regions stamped_page) = 0 then 10 else 0)
             + (if 3 < length (findall_money_combined four_money_regex ''breach of liability'')
                then 5 else 0)))"
    using inst v sample_keywords by simp
  also have "\<dots> = 51"
    by (simp add: stamped_detections four_money_regex_def no_regex_def)
  finally show ?thesis
    using v stamped_detections stamped_consistency by simp
qed

section \<open>Degraded visual analysis\<close>

lemma error_state_has_no_signature_count:
  "vf_error (extract_visual_features render) \<noteq> None \<Longrightarrow>
   signatures_detected (extract_visual_features render) = None"
  by (auto simp: extract_visual_features_def visual_features_of_def Let_def
      split: outcome.splits list.splits)

lemma analyze_returns:
  "m_analyze_document re doc = Returns r \<Longrightarrow>
   \<exists>tf. m_extract_text_features re (m_parse doc) = Returns tf
      \<and> m_text_analysis r = tf
      \<and> visual_analysis r = extract_visual_features (m_render doc)
      \<and> combined_risk_score r = calculate_combined_risk tf (extract_visual_features (m_render doc))
      \<and> m_recommendations r =
          m_generate_recommendations (combined_risk_score r) (visual_analysis r) tf"
  by (auto simp: m_analyze_document_def Let_def split: outcome.splits)

lemma no_signature_line:
  "signatures_detected vf = None \<Longrightarrow>
   ''No signatures detected - ensure proper signing'' \<in> set (m_generate_recommendations s vf tf)"
  by (simp add: m_generate_recommendations_def Let_def append_if_def get_or_def)

lemma no_signature_penalty:
  "signatures_detected vf = None \<Longrightarrow>
   calculate_combined_risk tf vf =
     min 100 (real_of_int (get_or 0 (text_risk_score tf)) * (6 / 10)
              + real_of_int (get_or 0 (visual_risk_score vf)) * (4 / 10) + 10
              + (if 3 < length (get_or [] (m_monetary_amounts tf)) then 5 else 0))"
  by (simp add: calculate_combined_risk_def Let_def get_or_def)

lemma with_signature_no_penalty:
  "calculate_combined_risk tf (vf\<lparr>signatures_detected := Some (Suc n)\<rparr>) =
     min 100 (real_of_int (get_or 0 (text_risk_score tf)) * (6 / 10)
              + real_of_int (get_or 0 (visual_risk_score vf)) * (4 / 10)
              + (if 3 < length (get_or [] (m_monetary_amounts tf)) then 5 else 0))"
  by (simp add: calculate_combined_risk_def Let_def get_or_def)

text \<open>
  C10: whenever the combined pipeline returns a result whose visual dictionary is in the
  error state, that dictionary has no signature count, the combined score contains the
  flat 10 of the missing signature (so it is never below the score of the same
  dictionaries with a positive signature count), and the recommendations contain the
  ``No signatures detected'' line.
\<close>

theorem degraded_visual_penalty:
  assumes "m_analyze_document re doc = Returns r"
    and "vf_error (visual_analysis r) \<noteq> None"
  shows "signatures_detected (visual_analysis r) = None
    \<and> combined_risk_score r =
        min 100 (real_of_int (get_or 0 (text_risk_score (m_text_analysis r))) * (6 / 10)
                 + real_of_int (get_or 0 (visual_risk_score (visual_analysis r))) * (4 / 10) + 10
                 + (if 3 < length (get_or [] (m_monetary_amounts (m_text_analysis r))) then 5 else 0))
    \<and> ''No signatures detected - ensure proper signing'' \<in> set (m_recommendations r)
    \<and> calculate_combined_risk (m_text_analysis r)
          ((visual_analysis r)\<lparr>signatures_detected := Some (Suc n)\<rparr>) \<le> combined_risk_score r"
proof -
  from analyze_returns[OF assms(1)] obtain tf where
    tf: "m_text_analysis r = tf"
    and vf: "visual_analysis r = extract_visual_features (m_render doc)"
    and score: "combined_risk_score r = calculate_combined_risk tf (extract_visual_features (m_render doc))"
    and recs: "m_recommendations r =
          m_generate_recommendations (combined_risk_score r) (visual_analysis r) tf"
    by blast
  have none: "signatures_detected (visual_analysis r) = None"
    using assms(2) error_state_has_no_signature_count vf by simp
  have pen: "combined_risk_score r =
        min 100 (real_of_int (get_or 0 (text_risk_score (m_text_analysis r))) * (6 / 10)
                 + real_of_int (get_or 0 (visual_risk_score (visual_analysis r))) * (4 / 10) + 10
                 + (if 3 < length (get_or [] (m_monetary_amounts (m_text_analysis r))) then 5 else 0))"
    using no_signature_penalty[OF none, of tf] score tf vf by simp
  have line: "''No signatures detected - ensure proper signing'' \<in> set (m_recommendations r)"
    using no_signature_line[OF none] recs by simp
  have le: "calculate_combined_risk (m_text_analysis r)
          ((visual_analysis r)\<lparr>signatures_detected := Some (Suc n)\<rparr>) \<le> combined_risk_score r"
    unfolding pen with_signature_no_penalty by (simp add: min_def)
  from none pen line le show ?thesis by blast
qed

lemma degraded_run: "m_analyze_document no_regex degraded_doc = Returns degraded_result"
  apply (simp add: m_analyze_document_def degraded_doc_def degraded_result_def one_page_def
        m_extract_text_features_def extract_visual_features_def Let_def)
  apply (rule conjI)
   apply code_simp
  apply (simp add: calculate_combined_risk_def m_generate_recommendations_def append_if_def get_or_def Let_def)
  apply code_simp
  done

text \<open>
  C10 at a readable one-page file whose page image makes the image library raise:
  score 6 + 20 + 10 = 36, and the advisory is present.
\<close>

theorem degraded_visual_penalty_witness:
  "m_analyze_document no_regex degraded_doc = Returns degraded_result
   \<and> vf_error (visual_analysis degraded_result) \<noteq> None
   \<and> signatures_detected (visual_analysis degraded_result) = None
   \<and> combined_risk_score degraded_result = 36
   \<and> ''No signatures detected - ensure proper signing'' \<in> set (m_recommendations degraded_result)"
proof -
  have e: "vf_error (visual_analysis degraded_result) \<noteq> None"
    by (simp add: degraded_result_def)
  from degraded_visual_penalty [OF degraded_run e, of 0] degraded_run e show ?thesis
    by (simp add: degraded_result_def)
qed

end
